theory Spec2Isabelle
  imports Complex_Main
begin

section \<open>Python strings and dictionaries\<close>

text \<open>
  Strings are lists of characters. The file names and extensions that the server compares
  are ASCII, and \<open>str.lower\<close> sends no character outside \<open>A\<close>..\<open>Z\<close> to one of the
  letters of \<open>docx\<close>, \<open>txt\<close> or \<open>pdf\<close>, so lowering the ASCII capitals is what the
  comparisons of the source see.
\<close>

definition char_lower :: "char \<Rightarrow> char" where
  "char_lower c =
     (case map_of (zip ''ABCDEFGHIJKLMNOPQRSTUVWXYZ'' ''abcdefghijklmnopqrstuvwxyz'') c of
        Some l \<Rightarrow> l
      | None \<Rightarrow> c)"

definition lower :: "string \<Rightarrow> string" where
  "lower s = map char_lower s"

text \<open>\<open>s.startswith(pre)\<close> and \<open>s.endswith(suf)\<close>.\<close>

definition startswith :: "string \<Rightarrow> string \<Rightarrow> bool" where
  "startswith s pre = (take (length pre) s = pre)"

definition endswith :: "string \<Rightarrow> string \<Rightarrow> bool" where
  "endswith s suf = (length suf \<le> length s \<and> drop (length s - length suf) s = suf)"

text \<open>\<open>s.rsplit(sep, 1)\<close>: split once, at the last separator; a string without the
  separator comes back whole.\<close>

definition rsplit1 :: "char \<Rightarrow> string \<Rightarrow> string list" where
  "rsplit1 sep s =
     (if sep \<in> set s
      then [rev (tl (dropWhile (\<lambda>c. c \<noteq> sep) (rev s))), rev (takeWhile (\<lambda>c. c \<noteq> sep) (rev s))]
      else [s])"

text \<open>\<open>sep.join(parts)\<close>.\<close>

fun join :: "string \<Rightarrow> string list \<Rightarrow> string" where
  "join sep [] = []"
| "join sep [p] = p"
| "join sep (p # q # ps) = p @ sep @ join sep (q # ps)"

text \<open>\<open>os.path.join(a, b)\<close> on POSIX, for a non-empty \<open>a\<close> that does not end in a slash: an
  absolute \<open>b\<close> replaces \<open>a\<close>.\<close>

definition os_path_join :: "string \<Rightarrow> string \<Rightarrow> string" where
  "os_path_join a b = (if b \<noteq> [] \<and> hd b = CHR ''/'' then b else a @ ''/'' @ b)"

text \<open>
  A Python \<open>dict\<close> keeps its keys in insertion order: it is an association list with
  distinct keys. Assigning to a key that is present replaces the value where it stands;
  a new key goes to the end.
\<close>

type_synonym ('k, 'v) dict = "('k \<times> 'v) list"

fun dict_setitem :: "('k, 'v) dict \<Rightarrow> 'k \<Rightarrow> 'v \<Rightarrow> ('k, 'v) dict" where
  "dict_setitem [] k v = [(k, v)]"
| "dict_setitem ((k', v') # d) k v =
     (if k' = k then (k, v) # d else (k', v') # dict_setitem d k v)"

definition dict_keys :: "('k, 'v) dict \<Rightarrow> 'k list" where
  "dict_keys d = map fst d"

definition dict_values :: "('k, 'v) dict \<Rightarrow> 'v list" where
  "dict_values d = map snd d"

text \<open>\<open>d.get(k, default)\<close>.\<close>

definition dict_get :: "('k, 'v) dict \<Rightarrow> 'k \<Rightarrow> 'v \<Rightarrow> 'v" where
  "dict_get d k dflt = (case map_of d k of None \<Rightarrow> dflt | Some v \<Rightarrow> v)"

section \<open>JSON values, requests and responses\<close>

text \<open>
  The values \<open>request.json\<close> can hold and \<open>jsonify\<close> can send. Numbers are integers here;
  a fractional number behaves like a non-zero integer wherever the server looks at it.
\<close>

datatype json =
  JNull
  | JBool bool
  | JInt int
  | JStr string
  | JArr "json list"
  | JObj "(string \<times> json) list"

text \<open>Python truthiness, as \<open>if not user_message\<close> and \<open>document_id and ...\<close> test it.\<close>

fun truthy :: "json \<Rightarrow> bool" where
  "truthy JNull = False"
| "truthy (JBool b) = b"
| "truthy (JInt n) = (n \<noteq> 0)"
| "truthy (JStr s) = (s \<noteq> [])"
| "truthy (JArr xs) = (xs \<noteq> [])"
| "truthy (JObj kvs) = (kvs \<noteq> [])"

record response =
  status :: nat
  body :: "(string \<times> json) list"

text \<open>The part \<open>request.files['file']\<close> of a multipart upload: the client's file name and
  the bytes.\<close>

record file_storage =
  upload_filename :: string
  upload_bytes :: string

text \<open>The keyword arguments of one \<open>client.chat.completions.create\<close> call. The
  temperature is the decimal the source writes.\<close>

record api_call =
  model :: string
  messages :: "(string \<times> string) list"
  temperature :: rat
  max_tokens :: nat

section \<open>The world outside the repository\<close>

text \<open>
  The libraries the server calls are parameters. An exception is the left injection,
  carrying \<open>str(e)\<close>. A reader gets the bytes stored at the path, or \<open>None\<close> when no
  file is there.
  \<^item> \<open>secure_filename\<close>: werkzeug's sanitiser.
  \<^item> \<open>save_error\<close>: the message of the exception \<open>file.save(path)\<close> raises at this
    path, if it raises.
  \<^item> \<open>Document\<close>: python-docx; the paragraph texts in document order.
  \<^item> \<open>read_utf8\<close>: \<open>open(path, 'r', encoding='utf-8')\<close> and \<open>f.read()\<close>.
  \<^item> \<open>PdfReader\<close>: PyPDF2; for each page what \<open>page.extract_text()\<close> does: it raises,
    or returns a text (the empty text also stands for \<open>None\<close>).
  \<^item> \<open>completions_create\<close>: the remote completion API, up to
    \<open>response.choices[0].message.content\<close>.
  \<^item> \<open>py_str\<close>: Python's \<open>str\<close> on a JSON value that is not a string.
\<close>

record env =
  secure_filename :: "string \<Rightarrow> string"
  save_error :: "string \<Rightarrow> string option"
  Document :: "string option \<Rightarrow> string + string list"
  read_utf8 :: "string option \<Rightarrow> string + string"
  PdfReader :: "string option \<Rightarrow> string + (string + string) list"
  completions_create :: "api_call \<Rightarrow> string + string"
  py_str :: "json \<Rightarrow> string"

text \<open>
  The state of the process: the global \<open>loaded_documents\<close>, the files on disk, and the
  calls sent to the remote API so far (a log the source does not keep; it is here so
  that "the API was not called" can be said).
\<close>

record server =
  loaded_documents :: "(string, string) dict"
  files :: "string \<rightharpoonup> string"
  api_calls :: "api_call list"

section \<open>Configuration and text extraction\<close>

definition UPLOAD_FOLDER :: string where
  "UPLOAD_FOLDER = ''uploads''"

definition ALLOWED_EXTENSIONS :: "string set" where
  "ALLOWED_EXTENSIONS = {''docx'', ''txt'', ''pdf''}"

definition allowed_file :: "string \<Rightarrow> bool" where
  "allowed_file fname =
     (CHR ''.'' \<in> set fname \<and> lower (rsplit1 CHR ''.'' fname ! 1) \<in> ALLOWED_EXTENSIONS)"

definition newline :: string where
  "newline = [CHR 0x0A]"

definition extract_text_from_docx :: "env \<Rightarrow> (string \<rightharpoonup> string) \<Rightarrow> string \<Rightarrow> string" where
  "extract_text_from_docx e fs file_path =
     (case Document e (fs file_path) of
        Inr paragraphs \<Rightarrow> join newline paragraphs
      | Inl msg \<Rightarrow> ''Error reading document: '' @ msg)"

definition extract_text_from_txt :: "env \<Rightarrow> (string \<rightharpoonup> string) \<Rightarrow> string \<Rightarrow> string" where
  "extract_text_from_txt e fs file_path =
     (case read_utf8 e (fs file_path) of
        Inr text \<Rightarrow> text
      | Inl msg \<Rightarrow> ''Error reading document: '' @ msg)"

text \<open>The loop over \<open>reader.pages\<close>: a page whose text is empty adds nothing, a page
  whose extraction raises ends the loop with that exception.\<close>

fun collect_pages :: "(string + string) list \<Rightarrow> string list \<Rightarrow> string + string list" where
  "collect_pages [] pages = Inr pages"
| "collect_pages (Inl msg # rest) pages = Inl msg"
| "collect_pages (Inr txt # rest) pages =
     collect_pages rest (if txt \<noteq> [] then pages @ [txt] else pages)"

text \<open>The body of the \<open>try\<close> in \<open>extract_text_from_pdf\<close>, up to the list \<open>pages\<close>.\<close>

definition pdf_pages :: "env \<Rightarrow> string option \<Rightarrow> string + string list" where
  "pdf_pages e b =
     (case PdfReader e b of
        Inl msg \<Rightarrow> Inl msg
      | Inr reader_pages \<Rightarrow> collect_pages reader_pages [])"

definition extract_text_from_pdf :: "env \<Rightarrow> (string \<rightharpoonup> string) \<Rightarrow> string \<Rightarrow> string" where
  "extract_text_from_pdf e fs file_path =
     (case pdf_pages e (fs file_path) of
        Inr pages \<Rightarrow> join newline pages
      | Inl msg \<Rightarrow> ''Error reading PDF: '' @ msg)"

text \<open>
  The three extractors once more, with the control flow of Python written out. The body
  of the \<open>try\<close> is a computation that may raise; \<open>except Exception as e\<close> hands the
  message of whatever was raised to the handler; a left injection in the result is an
  exception that leaves the function and reaches the caller.
\<close>

definition try_except :: "string + 'a \<Rightarrow> (string \<Rightarrow> string + 'a) \<Rightarrow> string + 'a" where
  "try_except block handler = (case block of Inl msg \<Rightarrow> handler msg | Inr v \<Rightarrow> Inr v)"

definition extract_text_from_docx_try ::
  "env \<Rightarrow> (string \<rightharpoonup> string) \<Rightarrow> string \<Rightarrow> string + string" where
  "extract_text_from_docx_try e fs file_path =
     try_except
       (case Document e (fs file_path) of
          Inl msg \<Rightarrow> Inl msg
        | Inr paragraphs \<Rightarrow> Inr (join newline paragraphs))
       (\<lambda>msg. Inr (''Error reading document: '' @ msg))"

definition extract_text_from_txt_try ::
  "env \<Rightarrow> (string \<rightharpoonup> string) \<Rightarrow> string \<Rightarrow> string + string" where
  "extract_text_from_txt_try e fs file_path =
     try_except
       (read_utf8 e (fs file_path))
       (\<lambda>msg. Inr (''Error reading document: '' @ msg))"

definition extract_text_from_pdf_try ::
  "env \<Rightarrow> (string \<rightharpoonup> string) \<Rightarrow> string \<Rightarrow> string + string" where
  "extract_text_from_pdf_try e fs file_path =
     try_except
       (case PdfReader e (fs file_path) of
          Inl msg \<Rightarrow> Inl msg
        | Inr reader_pages \<Rightarrow>
            (case collect_pages reader_pages [] of
               Inl msg \<Rightarrow> Inl msg
             | Inr pages \<Rightarrow> Inr (join newline pages)))
       (\<lambda>msg. Inr (''Error reading PDF: '' @ msg))"

section \<open>The endpoints\<close>

definition health :: "server \<Rightarrow> response \<times> server" where
  "health st = (\<lparr>status = 200, body = [(''status'', JStr ''Server is running'')]\<rparr>, st)"

text \<open>\<open>POST /api/upload\<close>. The argument is \<open>request.files.get('file')\<close>.\<close>

definition upload_document :: "env \<Rightarrow> server \<Rightarrow> file_storage option \<Rightarrow> response \<times> server" where
  "upload_document e st req =
     (case req of
        None \<Rightarrow> (\<lparr>status = 400, body = [(''error'', JStr ''No file provided'')]\<rparr>, st)
      | Some file \<Rightarrow>
          if upload_filename file = [] then
            (\<lparr>status = 400, body = [(''error'', JStr ''No file selected'')]\<rparr>, st)
          else if \<not> allowed_file (upload_filename file) then
            (\<lparr>status = 400,
              body = [(''error'', JStr ''File type not allowed. Use DOCX, TXT, or PDF'')]\<rparr>, st)
          else
            let fname = secure_filename e (upload_filename file);
                file_path = os_path_join UPLOAD_FOLDER fname
            in (case save_error e file_path of
                  Some msg \<Rightarrow>
                    (\<lparr>status = 500,
                      body = [(''error'', JStr ''Internal server error''),
                              (''details'', JStr msg)]\<rparr>, st)
                | None \<Rightarrow>
                    let fs = (files st)(file_path \<mapsto> upload_bytes file);
                        doc_text =
                          (if endswith (lower fname) ''.docx'' then
                             extract_text_from_docx e fs file_path
                           else if endswith (lower fname) ''.pdf'' then
                             let base = take (length fname - 4) fname;
                                 docx_equiv = os_path_join UPLOAD_FOLDER (base @ ''.docx'')
                             in if fs docx_equiv \<noteq> None
                                then extract_text_from_docx e fs docx_equiv
                                else extract_text_from_pdf e fs file_path
                           else extract_text_from_txt e fs file_path)
                    in (\<lparr>status = 200,
                         body = [(''success'', JBool True),
                                 (''message'',
                                  JStr (''Document '' @ [CHR 0x22] @ fname @ [CHR 0x22]
                                        @ '' uploaded successfully'')),
                                 (''document_id'', JStr fname)]\<rparr>,
                        st\<lparr>loaded_documents := dict_setitem (loaded_documents st) fname doc_text,
                           files := fs\<rparr>)))"

text \<open>
  \<open>POST /api/chat\<close>. The argument is what reading \<open>request.json\<close> gives: an exception
  (a body that is not JSON) or the parsed value.
\<close>

definition quoted :: "string \<Rightarrow> string" where
  "quoted s = [CHR 0x27] @ s @ [CHR 0x27]"

fun type_name :: "json \<Rightarrow> string" where
  "type_name JNull = ''NoneType''"
| "type_name (JBool b) = ''bool''"
| "type_name (JInt n) = ''int''"
| "type_name (JStr s) = ''str''"
| "type_name (JArr xs) = ''list''"
| "type_name (JObj kvs) = ''dict''"

text \<open>The values Python can hash: everything but a list and a dict.\<close>

fun hashable :: "json \<Rightarrow> bool" where
  "hashable (JArr xs) = False"
| "hashable (JObj kvs) = False"
| "hashable v = True"

text \<open>
  \<open>document_id in loaded_documents\<close> followed by \<open>loaded_documents[document_id]\<close>: the
  text under the key, \<open>None\<close> when the membership test is false. Hashing a list or a
  dict raises TypeError; a number, a boolean or null is hashable and equal to no key.
\<close>

fun lookup_id :: "json \<Rightarrow> (string, string) dict \<Rightarrow> string + string option" where
  "lookup_id (JStr s) d = Inr (map_of d s)"
| "lookup_id (JArr xs) d = Inl (''unhashable type: '' @ quoted ''list'')"
| "lookup_id (JObj kvs) d = Inl (''unhashable type: '' @ quoted ''dict'')"
| "lookup_id v d = Inr None"

text \<open>
  The block under \<open># Get document content\<close>: the \<open>if\<close>/\<open>elif\<close>/\<open>else\<close> that chooses
  \<open>doc_text\<close>. \<open>Inr None\<close> is the \<open>else\<close> branch, which answers 400.
\<close>

definition get_document_content ::
  "json \<Rightarrow> (string, string) dict \<Rightarrow> string + string option" where
  "get_document_content document_id d =
     (case (if truthy document_id then lookup_id document_id d else Inr None) of
        Inl msg \<Rightarrow> Inl msg
      | Inr (Some doc_text) \<Rightarrow> Inr (Some doc_text)
      | Inr None \<Rightarrow> (if d \<noteq> [] then Inr (Some (hd (dict_values d))) else Inr None))"

text \<open>An f-string field: a string is inserted as it is, another value through \<open>str\<close>.\<close>

definition format_value :: "env \<Rightarrow> json \<Rightarrow> string" where
  "format_value e v = (case v of JStr s \<Rightarrow> s | _ \<Rightarrow> py_str e v)"

text \<open>The arguments of the call to \<open>client.chat.completions.create\<close>.\<close>

definition create_args :: "string \<Rightarrow> string \<Rightarrow> api_call" where
  "create_args doc_text user_message =
     \<lparr>model = ''gpt-4o-mini'',
      messages =
        [(''system'',
          ''You are a helpful assistant that answers questions about the provided document. Answer based only on the document content.''),
         (''user'',
          ''Document content:'' @ newline @ doc_text @ newline @ newline
            @ ''User question: '' @ user_message)],
      temperature = 7 / 10,
      max_tokens = 1000\<rparr>"

definition chat_error :: "string \<Rightarrow> response" where
  "chat_error msg = \<lparr>status = 500, body = [(''error'', JStr msg), (''success'', JBool False)]\<rparr>"

definition chat :: "env \<Rightarrow> server \<Rightarrow> string + json \<Rightarrow> response \<times> server" where
  "chat e st req =
     (case req of
        Inl msg \<Rightarrow> (chat_error msg, st)
      | Inr (JObj kvs) \<Rightarrow>
          let user_message = dict_get kvs ''message'' (JStr []);
              document_id = dict_get kvs ''document_id'' JNull
          in if \<not> truthy user_message then
               (\<lparr>status = 400, body = [(''error'', JStr ''No message provided'')]\<rparr>, st)
             else
               (case get_document_content document_id (loaded_documents st) of
                  Inl msg \<Rightarrow> (chat_error msg, st)
                | Inr None \<Rightarrow>
                    (\<lparr>status = 400,
                      body = [(''error'',
                               JStr ''No document loaded. Please upload a document first.'')]\<rparr>,
                     st)
                | Inr (Some doc_text) \<Rightarrow>
                    let args = create_args doc_text (format_value e user_message);
                        st' = st\<lparr>api_calls := api_calls st @ [args]\<rparr>
                    in (case completions_create e args of
                          Inl msg \<Rightarrow> (chat_error msg, st')
                        | Inr bot_reply \<Rightarrow>
                            (\<lparr>status = 200,
                              body = [(''success'', JBool True),
                                      (''reply'', JStr bot_reply),
                                      (''document_id'', document_id)]\<rparr>,
                             st')))
      | Inr data \<Rightarrow>
          (chat_error (quoted (type_name data) @ '' object has no attribute '' @ quoted ''get''),
           st))"

definition list_documents :: "server \<Rightarrow> response \<times> server" where
  "list_documents st =
     (\<lparr>status = 200,
       body = [(''documents'', JArr (map JStr (dict_keys (loaded_documents st))))]\<rparr>, st)"

definition clear_documents :: "server \<Rightarrow> response \<times> server" where
  "clear_documents st =
     (\<lparr>status = 200, body = [(''message'', JStr ''All documents cleared'')]\<rparr>,
      st\<lparr>loaded_documents := []\<rparr>)"

section \<open>The server as a state machine\<close>

datatype request =
  Health
  | Upload "file_storage option"
  | Chat "string + json"
  | Documents
  | Clear

fun handle :: "env \<Rightarrow> server \<Rightarrow> request \<Rightarrow> response \<times> server" where
  "handle e st Health = health st"
| "handle e st (Upload req) = upload_document e st req"
| "handle e st (Chat req) = chat e st req"
| "handle e st Documents = list_documents st"
| "handle e st Clear = clear_documents st"

fun serve :: "env \<Rightarrow> server \<Rightarrow> request list \<Rightarrow> server" where
  "serve e st [] = st"
| "serve e st (r # rs) = serve e (snd (handle e st r)) rs"

text \<open>The process starts with no document loaded.\<close>

definition startup :: "(string \<rightharpoonup> string) \<Rightarrow> server" where
  "startup fs = \<lparr>loaded_documents = [], files = fs, api_calls = []\<rparr>"

section \<open>What the specification says, in its own words\<close>

text \<open>
  The keys the specification expects in the Document Store after a run: an upload that
  completed successfully (answered 200) adds its sanitized key, a clear leaves none,
  anything else changes nothing.
\<close>

fun ingested_keys :: "env \<Rightarrow> server \<Rightarrow> string set \<Rightarrow> request list \<Rightarrow> string set" where
  "ingested_keys e st K [] = K"
| "ingested_keys e st K (r # rs) =
     ingested_keys e (snd (handle e st r))
       (case r of
          Upload (Some file) \<Rightarrow>
            if status (fst (handle e st r)) = 200
            then insert (secure_filename e (upload_filename file)) K
            else K
        | Clear \<Rightarrow> {}
        | _ \<Rightarrow> K)
       rs"

text \<open>A file name has an allowed extension: it ends in a dot and one of the three
  extensions, written in any case.\<close>

definition has_allowed_extension :: "string \<Rightarrow> bool" where
  "has_allowed_extension fname =
     (\<exists>stem ext. fname = stem @ ''.'' @ ext \<and> lower ext \<in> {''docx'', ''txt'', ''pdf''})"

section \<open>A concrete environment\<close>

text \<open>
  Stubs for the libraries, to run the server on concrete requests: file names are kept,
  saving succeeds, a word-processing file holds one paragraph, a PDF that starts with
  \<open>%PDF\<close> holds one page and any other does not parse, and the remote API always answers.
\<close>

definition stub_env :: env where
  "stub_env =
     \<lparr>secure_filename = (\<lambda>s. s),
      save_error = (\<lambda>p. None),
      Document = (\<lambda>b. case b of None \<Rightarrow> Inl ''Package not found'' | Some c \<Rightarrow> Inr [c]),
      read_utf8 = (\<lambda>b. case b of None \<Rightarrow> Inl ''No such file or directory'' | Some c \<Rightarrow> Inr c),
      PdfReader = (\<lambda>b. case b of
                     None \<Rightarrow> Inl ''No such file or directory''
                   | Some c \<Rightarrow> if take 4 c = ''%PDF'' then Inr [Inr (drop 4 c)]
                              else Inl ''EOF marker not found''),
      completions_create = (\<lambda>call. Inr ''ok''),
      py_str = (\<lambda>v. ''?'')\<rparr>"

text \<open>
  \<open>s.strip("._")\<close>, the last step of werkzeug's \<open>secure_filename\<close>, and all it does to a
  name made of ASCII letters, digits, dots, dashes and underscores. The second
  environment sanitises file names with it.
\<close>

definition strip_dots_underscores :: "string \<Rightarrow> string" where
  "strip_dots_underscores s =
     rev (dropWhile (\<lambda>c. c = CHR ''.'' \<or> c = CHR ''_'')
       (rev (dropWhile (\<lambda>c. c = CHR ''.'' \<or> c = CHR ''_'') s)))"

definition stripping_env :: env where
  "stripping_env = stub_env\<lparr>secure_filename := strip_dots_underscores\<rparr>"

text \<open>
  A third environment, in which a PDF that starts with \<open>%PDF\<close> has a first page that
  reads and a second page whose extraction raises.
\<close>

definition broken_page_env :: env where
  "broken_page_env =
     stub_env\<lparr>PdfReader :=
       (\<lambda>b. case b of
              None \<Rightarrow> Inl ''No such file or directory''
            | Some c \<Rightarrow> if take 4 c = ''%PDF''
                       then Inr [Inr ''page one'', Inl ''bad page'', Inr ''page three'']
                       else Inl ''EOF marker not found'')\<rparr>"

section \<open>Strings, file names and dictionaries\<close>

lemma char_lower_dot: "char_lower c = CHR ''.'' \<longleftrightarrow> c = CHR ''.''"
  by (auto simp: char_lower_def split: if_splits)


lemma map_of_dict_setitem: "map_of (dict_setitem d k v) = (map_of d)(k \<mapsto> v)"
  by (induction d k v rule: dict_setitem.induct) (auto simp: fun_eq_iff)

lemma keys_dict_setitem: "set (dict_keys (dict_setitem d k v)) = insert k (set (dict_keys d))"
  by (induction d k v rule: dict_setitem.induct) (auto simp: dict_keys_def)

lemma distinct_dict_setitem:
  "distinct (dict_keys d) \<Longrightarrow> distinct (dict_keys (dict_setitem d k v))"
proof (induction d k v rule: dict_setitem.induct)
  case (1 k v)
  then show ?case by (simp add: dict_keys_def)
next
  case (2 k' v' d k v)
  have "set (map fst (dict_setitem d k v)) = insert k (set (map fst d))"
    using keys_dict_setitem[of d k v] by (simp add: dict_keys_def)
  with 2 show ?case by (auto simp: dict_keys_def)
qed

lemma hd_dict_setitem: "d \<noteq> [] \<Longrightarrow> fst (hd (dict_setitem d k v)) = fst (hd d)"
  by (cases d) auto

lemma lower_no_dot: "CHR ''.'' \<in> set (lower s) \<longleftrightarrow> CHR ''.'' \<in> set s"
proof -
  have "CHR ''.'' \<in> set (lower s) \<longleftrightarrow> (\<exists>c\<in>set s. char_lower c = CHR ''.'')"
    unfolding lower_def by (simp add: image_iff) metis
  then show ?thesis by (simp add: char_lower_dot)
qed

lemma allowed_ext_no_dot: "x \<in> ALLOWED_EXTENSIONS \<Longrightarrow> CHR ''.'' \<notin> set x"
  by (auto simp: ALLOWED_EXTENSIONS_def)

lemma takeWhile_upto: "\<forall>x\<in>set xs. P x \<Longrightarrow> \<not> P y \<Longrightarrow> takeWhile P (xs @ y # ys) = xs"
  by (induction xs) auto

lemma dropWhile_upto: "\<forall>x\<in>set xs. P x \<Longrightarrow> \<not> P y \<Longrightarrow> dropWhile P (xs @ y # ys) = y # ys"
  by (induction xs) auto

lemma rsplit1_last:
  assumes "CHR ''.'' \<notin> set ext"
  shows "rsplit1 CHR ''.'' (stem @ CHR ''.'' # ext) = [stem, ext]"
proof -
  have P: "\<forall>x\<in>set (rev ext). x \<noteq> CHR ''.''"
    using assms by auto
  have "takeWhile (\<lambda>c. c \<noteq> CHR ''.'') (rev ext @ CHR ''.'' # rev stem) = rev ext"
    using P by (intro takeWhile_upto) auto
  moreover have "dropWhile (\<lambda>c. c \<noteq> CHR ''.'') (rev ext @ CHR ''.'' # rev stem)
      = CHR ''.'' # rev stem"
    using P by (intro dropWhile_upto) auto
  ultimately show ?thesis by (simp add: rsplit1_def)
qed

lemma rsplit1_concat:
  assumes "CHR ''.'' \<in> set s"
  shows "s = rsplit1 CHR ''.'' s ! 0 @ ''.'' @ rsplit1 CHR ''.'' s ! 1"
proof -
  let ?P = "\<lambda>c. c \<noteq> CHR ''.''"
  let ?dw = "dropWhile ?P (rev s)"
  have ne: "?dw \<noteq> []" using assms by (simp add: dropWhile_eq_Nil_conv)
  then have "hd ?dw = CHR ''.''" using hd_dropWhile[of ?P "rev s"] by simp
  with ne have dw: "?dw = CHR ''.'' # tl ?dw" by (cases ?dw) auto
  have "rev s = takeWhile ?P (rev s) @ ?dw" by simp
  then have "rev s = takeWhile ?P (rev s) @ CHR ''.'' # tl ?dw" using dw by simp
  then have "rev (rev s) = rev (takeWhile ?P (rev s) @ CHR ''.'' # tl ?dw)" by (rule arg_cong)
  then have "s = rev (tl ?dw) @ ''.'' @ rev (takeWhile ?P (rev s))" by simp
  then show ?thesis using assms by (simp add: rsplit1_def)
qed

lemma allowed_file_iff: "allowed_file fname \<longleftrightarrow> has_allowed_extension fname"
proof
  assume a: "allowed_file fname"
  then have d: "CHR ''.'' \<in> set fname"
    and x: "lower (rsplit1 CHR ''.'' fname ! 1) \<in> ALLOWED_EXTENSIONS"
    by (simp_all add: allowed_file_def)
  from rsplit1_concat[OF d] x show "has_allowed_extension fname"
    unfolding has_allowed_extension_def ALLOWED_EXTENSIONS_def by blast
next
  assume "has_allowed_extension fname"
  then obtain stem ext where f: "fname = stem @ ''.'' @ ext"
    and x: "lower ext \<in> ALLOWED_EXTENSIONS"
    by (auto simp: has_allowed_extension_def ALLOWED_EXTENSIONS_def)
  from x have "CHR ''.'' \<notin> set ext"
    using allowed_ext_no_dot[of "lower ext"] by (simp add: lower_no_dot)
  then have "rsplit1 CHR ''.'' fname = [stem, ext]" using f by (simp add: rsplit1_last)
  with f x show "allowed_file fname" by (simp add: allowed_file_def)
qed

section \<open>Ingestion\<close>

text \<open>
  Claim C6. An upload whose file name does not end in a dot followed by \<open>docx\<close>,
  \<open>txt\<close> or \<open>pdf\<close> (in any case) is answered 400, and the server state, the
  Document Store with it, is what it was: no key is added, removed or overwritten and
  nothing is written to disk.
\<close>

theorem upload_disallowed_extension:
  assumes "\<not> has_allowed_extension (upload_filename file)"
  shows "status (fst (upload_document e st (Some file))) = 400
       \<and> snd (upload_document e st (Some file)) = st"
proof -
  from assms have "\<not> allowed_file (upload_filename file)"
    by (simp add: allowed_file_iff)
  then show ?thesis by (simp add: upload_document_def)
qed

theorem upload_disallowed_extension_witness:
  "\<not> has_allowed_extension ''virus.exe''
   \<and> status (fst (upload_document stub_env
        \<lparr>loaded_documents = [(''notes.txt'', ''hello'')], files = Map.empty, api_calls = []\<rparr>
        (Some \<lparr>upload_filename = ''virus.exe'', upload_bytes = ''MZ''\<rparr>))) = 400
   \<and> loaded_documents (snd (upload_document stub_env
        \<lparr>loaded_documents = [(''notes.txt'', ''hello'')], files = Map.empty, api_calls = []\<rparr>
        (Some \<lparr>upload_filename = ''virus.exe'', upload_bytes = ''MZ''\<rparr>)))
     = [(''notes.txt'', ''hello'')]"
proof -
  have h: "\<not> has_allowed_extension
      (upload_filename \<lparr>upload_filename = ''virus.exe'', upload_bytes = ''MZ''\<rparr>)"
    by (simp add: allowed_file_iff [symmetric] allowed_file_def rsplit1_def lower_def
        char_lower_def ALLOWED_EXTENSIONS_def)
  from upload_disallowed_extension [OF h, of stub_env
      "\<lparr>loaded_documents = [(''notes.txt'', ''hello'')], files = Map.empty, api_calls = []\<rparr>"]
    h
  show ?thesis by simp
qed

text \<open>
  The path of an uploaded PDF and the path of its word-processing twin never coincide, so
  saving the PDF leaves the twin as it was.
\<close>

lemma last_os_path_join: "b \<noteq> [] \<Longrightarrow> last (os_path_join a b) = last b"
  by (simp add: os_path_join_def)

lemma endswith_last: "endswith s suf \<Longrightarrow> suf \<noteq> [] \<Longrightarrow> last s = last suf"
proof -
  assume e: "endswith s suf" and ne: "suf \<noteq> []"
  from e have le: "length suf \<le> length s" and d: "drop (length s - length suf) s = suf"
    by (simp_all add: endswith_def)
  from ne le have "length s - length suf < length s" by (cases suf) auto
  then have "last (drop (length s - length suf) s) = last s" by (rule last_drop)
  with d show ?thesis by simp
qed

lemma char_lower_x: "char_lower CHR ''x'' = CHR ''x''"
  by (simp add: char_lower_def)

lemma pdf_docx_paths_differ:
  assumes "endswith (lower fname) ''.pdf''"
  shows "os_path_join a fname \<noteq> os_path_join a (base @ ''.docx'')"
proof
  assume eq: "os_path_join a fname = os_path_join a (base @ ''.docx'')"
  from assms have ne: "fname \<noteq> []" by (auto simp: endswith_def lower_def)
  from assms have "last (lower fname) = CHR ''f''"
    using endswith_last [of "lower fname" "''.pdf''"] by simp
  with ne have f: "char_lower (last fname) = CHR ''f''"
    by (simp add: lower_def last_map)
  have "last (os_path_join a fname) = last fname"
    using ne by (rule last_os_path_join)
  moreover have "last (os_path_join a (base @ ''.docx'')) = CHR ''x''"
    using last_os_path_join [of "base @ ''.docx''" a] by simp
  ultimately have "last fname = CHR ''x''" using eq by simp
  with f show False by (simp add: char_lower_x)
qed

lemma pdf_not_docx: "endswith (lower fname) ''.pdf'' \<Longrightarrow> \<not> endswith (lower fname) ''.docx''"
  using endswith_last [of "lower fname" "''.pdf''"] endswith_last [of "lower fname" "''.docx''"]
  by auto

lemma upload_document_200:
  "status (fst (upload_document e st (Some file))) = 200 \<longleftrightarrow>
     upload_filename file \<noteq> [] \<and> allowed_file (upload_filename file)
     \<and> save_error e (os_path_join UPLOAD_FOLDER (secure_filename e (upload_filename file))) = None"
  by (auto simp: upload_document_def Let_def split: option.splits)

lemma extract_docx_cong: "fs p = fs' p' \<Longrightarrow> extract_text_from_docx e fs p = extract_text_from_docx e fs' p'"
  by (simp add: extract_text_from_docx_def)

lemma extract_pdf_cong: "fs p = fs' p' \<Longrightarrow> extract_text_from_pdf e fs p = extract_text_from_pdf e fs' p'"
  by (simp add: extract_text_from_pdf_def)

lemma upload_pdf_text:
  assumes ok: "status (fst (upload_document e st (Some file))) = 200"
    and fname: "fname = secure_filename e (upload_filename file)"
    and pdf: "endswith (lower fname) ''.pdf''"
    and file_path: "file_path = os_path_join UPLOAD_FOLDER fname"
    and docx_equiv: "docx_equiv = os_path_join UPLOAD_FOLDER (take (length fname - 4) fname @ ''.docx'')"
  shows "map_of (loaded_documents (snd (upload_document e st (Some file)))) fname =
           Some (if files st docx_equiv \<noteq> None
                 then extract_text_from_docx e (files st) docx_equiv
                 else extract_text_from_pdf e [file_path \<mapsto> upload_bytes file] file_path)
         \<and> files (snd (upload_document e st (Some file))) file_path = Some (upload_bytes file)"
proof -
  from ok have v: "upload_filename file \<noteq> []" "allowed_file (upload_filename file)"
    "save_error e (os_path_join UPLOAD_FOLDER (secure_filename e (upload_filename file))) = None"
    by (simp_all add: upload_document_200)
  have nd: "\<not> endswith (lower fname) ''.docx''" using pdf by (rule pdf_not_docx)
  have diff: "file_path \<noteq> docx_equiv"
    unfolding file_path docx_equiv using pdf by (rule pdf_docx_paths_differ)
  let ?fs = "(files st)(file_path \<mapsto> upload_bytes file)"
  have same: "?fs docx_equiv = files st docx_equiv" using diff by simp
  have d: "extract_text_from_docx e ?fs docx_equiv = extract_text_from_docx e (files st) docx_equiv"
    using same by (rule extract_docx_cong)
  have p: "extract_text_from_pdf e ?fs file_path
      = extract_text_from_pdf e [file_path \<mapsto> upload_bytes file] file_path"
    by (rule extract_pdf_cong) simp
  have "snd (upload_document e st (Some file)) =
      st\<lparr>loaded_documents := dict_setitem (loaded_documents st) fname
            (if ?fs docx_equiv \<noteq> None then extract_text_from_docx e ?fs docx_equiv
             else extract_text_from_pdf e ?fs file_path),
         files := ?fs\<rparr>"
    using v nd pdf
    by (simp add: upload_document_def Let_def fname [symmetric] file_path [symmetric]
        docx_equiv [symmetric])
  then show ?thesis
    using same d p by (simp add: map_of_dict_setitem)
qed


lemmas run_simps =
  upload_document_def allowed_file_def rsplit1_def lower_def char_lower_def
  ALLOWED_EXTENSIONS_def endswith_def startswith_def os_path_join_def UPLOAD_FOLDER_def
  stub_env_def startup_def extract_text_from_docx_def extract_text_from_pdf_def
  extract_text_from_txt_def pdf_pages_def newline_def Let_def

text \<open>
  Claim C1. Take an upload that completes (answered 200) and whose sanitized name ends in
  \<open>.pdf\<close>, in any case. If the upload directory already held, before the upload, a file
  with the same stem and the extension \<open>.docx\<close>, the text stored under the PDF's key is
  the text extracted from that file; otherwise it is the text extracted from the uploaded
  PDF bytes.
\<close>

theorem upload_pdf_prefers_docx:
  assumes "status (fst (upload_document e st (Some file))) = 200"
    and "fname = secure_filename e (upload_filename file)"
    and "endswith (lower fname) ''.pdf''"
    and "file_path = os_path_join UPLOAD_FOLDER fname"
    and "docx_equiv = os_path_join UPLOAD_FOLDER (take (length fname - 4) fname @ ''.docx'')"
  shows "map_of (loaded_documents (snd (upload_document e st (Some file)))) fname =
           Some (if files st docx_equiv \<noteq> None
                 then extract_text_from_docx e (files st) docx_equiv
                 else extract_text_from_pdf e [file_path \<mapsto> upload_bytes file] file_path)"
  using upload_pdf_text [OF assms] by simp

theorem upload_pdf_prefers_docx_witness:
  "status (fst (upload_document stub_env
       (startup [''uploads/report.docx'' \<mapsto> ''Quarterly report''])
       (Some \<lparr>upload_filename = ''report.pdf'', upload_bytes = ''%PDFscanned page''\<rparr>))) = 200
   \<and> endswith (lower ''report.pdf'') ''.pdf''
   \<and> map_of (loaded_documents (snd (upload_document stub_env
       (startup [''uploads/report.docx'' \<mapsto> ''Quarterly report''])
       (Some \<lparr>upload_filename = ''report.pdf'', upload_bytes = ''%PDFscanned page''\<rparr>))))
       ''report.pdf'' = Some ''Quarterly report''
   \<and> map_of (loaded_documents (snd (upload_document stub_env
       (startup Map.empty)
       (Some \<lparr>upload_filename = ''report.pdf'', upload_bytes = ''%PDFscanned page''\<rparr>))))
       ''report.pdf'' = Some ''scanned page''"
proof -
  let ?F = "\<lparr>upload_filename = ''report.pdf'', upload_bytes = ''%PDFscanned page''\<rparr>"
  let ?S = "startup [''uploads/report.docx'' \<mapsto> ''Quarterly report'']"
  have a: "status (fst (upload_document stub_env ?S (Some ?F))) = 200"
    by (simp add: run_simps)
  have a': "status (fst (upload_document stub_env (startup Map.empty) (Some ?F))) = 200"
    by (simp add: run_simps)
  have n: "secure_filename stub_env (upload_filename ?F) = ''report.pdf''"
    by (simp add: stub_env_def)
  have b: "endswith (lower (secure_filename stub_env (upload_filename ?F))) ''.pdf''"
    by (simp add: run_simps)
  from upload_pdf_prefers_docx [OF a refl b refl refl]
    upload_pdf_prefers_docx [OF a' refl b refl refl] a b
  show ?thesis
    unfolding n by (simp add: run_simps)
qed

text \<open>
  No extractor lets an exception reach its caller, and the page loop of the PDF extractor
  stops at the first page whose extraction raises.
\<close>

lemma collect_pages_ok:
  "collect_pages (map Inr texts) acc = Inr (acc @ filter (\<lambda>t. t \<noteq> []) texts)"
  by (induction texts arbitrary: acc) simp_all

lemma collect_pages_raises:
  "collect_pages (map Inr texts @ Inl msg # rest) acc = Inl msg"
  by (induction texts arbitrary: acc) simp_all

lemma try_except_returns:
  "(\<And>msg. \<exists>v. handler msg = Inr v) \<Longrightarrow> \<exists>v. try_except block handler = Inr v"
  by (cases block) (simp_all add: try_except_def)

lemma extract_docx_try: "extract_text_from_docx_try e fs p = Inr (extract_text_from_docx e fs p)"
  by (simp add: extract_text_from_docx_try_def extract_text_from_docx_def try_except_def
      split: sum.splits)

lemma extract_txt_try: "extract_text_from_txt_try e fs p = Inr (extract_text_from_txt e fs p)"
  by (simp add: extract_text_from_txt_try_def extract_text_from_txt_def try_except_def
      split: sum.splits)

lemma extract_pdf_try: "extract_text_from_pdf_try e fs p = Inr (extract_text_from_pdf e fs p)"
  by (simp add: extract_text_from_pdf_try_def extract_text_from_pdf_def pdf_pages_def
      try_except_def split: sum.splits)

lemma extract_pdf_page_raises:
  "PdfReader e (fs q) = Inr (map Inr texts @ Inl msg # rest) \<Longrightarrow>
   extract_text_from_pdf e fs q = ''Error reading PDF: '' @ msg"
  by (simp add: extract_text_from_pdf_def pdf_pages_def collect_pages_raises)

lemma extract_pdf_reader_raises:
  "PdfReader e (fs p) = Inl msg \<Longrightarrow> extract_text_from_pdf e fs p = ''Error reading PDF: '' @ msg"
  by (simp add: extract_text_from_pdf_def pdf_pages_def)

lemma extract_pdf_ok:
  "PdfReader e (fs p) = Inr (map Inr texts) \<Longrightarrow>
   extract_text_from_pdf e fs p = join newline (filter (\<lambda>t. t \<noteq> []) texts)"
  by (simp add: extract_text_from_pdf_def pdf_pages_def collect_pages_ok)

text \<open>
  Claim C2 fails as it is written, in two ways. A PDF that does not parse, uploaded as
  \<open>report.pdf\<close> after \<open>report.docx\<close>, is answered 200, and the text stored under
  \<open>report.pdf\<close> is the text of \<open>report.docx\<close>, which begins with no error prefix. And a
  PDF that does not parse, uploaded under the name \<open>.pdf\<close>, passes the check of the
  extension, is stored under the sanitized name \<open>pdf\<close>, which does not end in \<open>.pdf\<close>,
  and is read as plain text: the stored text is the bytes themselves.
\<close>

theorem corrupted_pdf_counterexample:
  "pdf_pages stub_env (Some ''garbage'') = Inl ''EOF marker not found''
   \<and> status (fst (upload_document stub_env
        (snd (upload_document stub_env (startup Map.empty)
           (Some \<lparr>upload_filename = ''report.docx'', upload_bytes = ''Quarterly report''\<rparr>)))
        (Some \<lparr>upload_filename = ''report.pdf'', upload_bytes = ''garbage''\<rparr>))) = 200
   \<and> map_of (loaded_documents (snd (upload_document stub_env
        (snd (upload_document stub_env (startup Map.empty)
           (Some \<lparr>upload_filename = ''report.docx'', upload_bytes = ''Quarterly report''\<rparr>)))
        (Some \<lparr>upload_filename = ''report.pdf'', upload_bytes = ''garbage''\<rparr>))))
       ''report.pdf'' = Some ''Quarterly report''
   \<and> \<not> startswith ''Quarterly report'' ''Error reading''
   \<and> allowed_file ''.pdf''
   \<and> secure_filename stripping_env ''.pdf'' = ''pdf''
   \<and> pdf_pages stripping_env (Some ''garbage'') = Inl ''EOF marker not found''
   \<and> status (fst (upload_document stripping_env (startup Map.empty)
        (Some \<lparr>upload_filename = ''.pdf'', upload_bytes = ''garbage''\<rparr>))) = 200
   \<and> loaded_documents (snd (upload_document stripping_env (startup Map.empty)
        (Some \<lparr>upload_filename = ''.pdf'', upload_bytes = ''garbage''\<rparr>)))
       = [(''pdf'', ''garbage'')]
   \<and> \<not> startswith ''garbage'' ''Error reading''"
  by (simp add: run_simps stripping_env_def strip_dots_underscores_def)

text \<open>
  Claim C2, amended. No extractor raises to its caller: run with Python's \<open>try\<close> and
  \<open>except\<close> written out, each returns, and returns the text of the extractor the server
  uses. When the library raises, that text is the prefix \<open>Error reading document: \<close>
  (word-processing and plain text) or \<open>Error reading PDF: \<close> followed by the message of
  the exception; for a PDF this holds when the reader raises and when a page raises after
  any number of pages that read. Consequently an upload that passes validation and is
  saved, whose sanitized name ends in \<open>.pdf\<close> (in any case), whose bytes do not parse as
  a PDF, and that has no \<open>.docx\<close> of the same stem in the upload directory, is answered
  200, with \<open>Error reading PDF: \<close> and the message stored under its key.
\<close>

theorem extraction_failure_is_text:
  "extract_text_from_docx_try e fs p = Inr (extract_text_from_docx e fs p)
   \<and> extract_text_from_txt_try e fs p = Inr (extract_text_from_txt e fs p)
   \<and> extract_text_from_pdf_try e fs p = Inr (extract_text_from_pdf e fs p)
   \<and> (Document e (fs p) = Inl msg_d \<longrightarrow>
      extract_text_from_docx e fs p = ''Error reading document: '' @ msg_d)
   \<and> (read_utf8 e (fs p) = Inl msg_t \<longrightarrow>
      extract_text_from_txt e fs p = ''Error reading document: '' @ msg_t)
   \<and> (PdfReader e (fs p) = Inl msg_p \<longrightarrow>
      extract_text_from_pdf e fs p = ''Error reading PDF: '' @ msg_p)
   \<and> (PdfReader e (fs q) = Inr (map Inr texts @ Inl msg_q # rest) \<longrightarrow>
      extract_text_from_pdf e fs q = ''Error reading PDF: '' @ msg_q)
   \<and> (upload_filename file \<noteq> [] \<and> allowed_file (upload_filename file)
      \<and> fname = secure_filename e (upload_filename file)
      \<and> save_error e (os_path_join UPLOAD_FOLDER fname) = None
      \<and> endswith (lower fname) ''.pdf''
      \<and> files st (os_path_join UPLOAD_FOLDER (take (length fname - 4) fname @ ''.docx'')) = None
      \<and> pdf_pages e (Some (upload_bytes file)) = Inl msg_u \<longrightarrow>
      status (fst (upload_document e st (Some file))) = 200
      \<and> map_of (loaded_documents (snd (upload_document e st (Some file)))) fname
          = Some (''Error reading PDF: '' @ msg_u))"
proof (intro conjI impI)
  show "extract_text_from_docx_try e fs p = Inr (extract_text_from_docx e fs p)"
    by (rule extract_docx_try)
  show "extract_text_from_txt_try e fs p = Inr (extract_text_from_txt e fs p)"
    by (rule extract_txt_try)
  show "extract_text_from_pdf_try e fs p = Inr (extract_text_from_pdf e fs p)"
    by (rule extract_pdf_try)
  show "extract_text_from_docx e fs p = ''Error reading document: '' @ msg_d"
    if "Document e (fs p) = Inl msg_d"
    using that by (simp add: extract_text_from_docx_def)
  show "extract_text_from_txt e fs p = ''Error reading document: '' @ msg_t"
    if "read_utf8 e (fs p) = Inl msg_t"
    using that by (simp add: extract_text_from_txt_def)
  show "extract_text_from_pdf e fs p = ''Error reading PDF: '' @ msg_p"
    if "PdfReader e (fs p) = Inl msg_p"
    using that by (rule extract_pdf_reader_raises)
  show "extract_text_from_pdf e fs q = ''Error reading PDF: '' @ msg_q"
    if "PdfReader e (fs q) = Inr (map Inr texts @ Inl msg_q # rest)"
    using that by (rule extract_pdf_page_raises)
next
  assume h: "upload_filename file \<noteq> [] \<and> allowed_file (upload_filename file)
      \<and> fname = secure_filename e (upload_filename file)
      \<and> save_error e (os_path_join UPLOAD_FOLDER fname) = None
      \<and> endswith (lower fname) ''.pdf''
      \<and> files st (os_path_join UPLOAD_FOLDER (take (length fname - 4) fname @ ''.docx'')) = None
      \<and> pdf_pages e (Some (upload_bytes file)) = Inl msg_u"
  then show ok: "status (fst (upload_document e st (Some file))) = 200"
    by (auto simp: upload_document_200)
  from h have n: "fname = secure_filename e (upload_filename file)" by blast
  from h have pdf: "endswith (lower fname) ''.pdf''" by blast
  from h have nodocx: "files st
      (os_path_join UPLOAD_FOLDER (take (length fname - 4) fname @ ''.docx'')) = None"
    by blast
  from h have "pdf_pages e (Some (upload_bytes file)) = Inl msg_u" by blast
  then have t: "extract_text_from_pdf e
      [os_path_join UPLOAD_FOLDER fname \<mapsto> upload_bytes file]
      (os_path_join UPLOAD_FOLDER fname) = ''Error reading PDF: '' @ msg_u"
    by (simp add: extract_text_from_pdf_def)
  from upload_pdf_text [OF ok n pdf refl refl]
  have "map_of (loaded_documents (snd (upload_document e st (Some file)))) fname =
      Some (if files st (os_path_join UPLOAD_FOLDER (take (length fname - 4) fname @ ''.docx''))
               \<noteq> None
            then extract_text_from_docx e (files st)
               (os_path_join UPLOAD_FOLDER (take (length fname - 4) fname @ ''.docx''))
            else extract_text_from_pdf e
               [os_path_join UPLOAD_FOLDER fname \<mapsto> upload_bytes file]
               (os_path_join UPLOAD_FOLDER fname))"
    by (rule conjunct1)
  then show "map_of (loaded_documents (snd (upload_document e st (Some file)))) fname
      = Some (''Error reading PDF: '' @ msg_u)"
    unfolding nodocx t by simp
qed

theorem extraction_failure_is_text_witness:
  "extract_text_from_docx_try broken_page_env [''uploads/b.pdf'' \<mapsto> ''%PDFx'']
       ''uploads/a.docx'' = Inr ''Error reading document: Package not found''
   \<and> extract_text_from_txt_try broken_page_env [''uploads/b.pdf'' \<mapsto> ''%PDFx'']
       ''uploads/a.docx'' = Inr ''Error reading document: No such file or directory''
   \<and> extract_text_from_pdf_try broken_page_env [''uploads/b.pdf'' \<mapsto> ''%PDFx'']
       ''uploads/a.docx'' = Inr ''Error reading PDF: No such file or directory''
   \<and> Document broken_page_env None = Inl ''Package not found''
   \<and> extract_text_from_docx broken_page_env [''uploads/b.pdf'' \<mapsto> ''%PDFx''] ''uploads/a.docx''
       = ''Error reading document: Package not found''
   \<and> read_utf8 broken_page_env None = Inl ''No such file or directory''
   \<and> extract_text_from_txt broken_page_env [''uploads/b.pdf'' \<mapsto> ''%PDFx''] ''uploads/a.docx''
       = ''Error reading document: No such file or directory''
   \<and> PdfReader broken_page_env None = Inl ''No such file or directory''
   \<and> extract_text_from_pdf broken_page_env [''uploads/b.pdf'' \<mapsto> ''%PDFx''] ''uploads/a.docx''
       = ''Error reading PDF: No such file or directory''
   \<and> PdfReader broken_page_env (Some ''%PDFx'')
       = Inr (map Inr [''page one''] @ Inl ''bad page'' # [Inr ''page three''])
   \<and> extract_text_from_pdf broken_page_env [''uploads/b.pdf'' \<mapsto> ''%PDFx''] ''uploads/b.pdf''
       = ''Error reading PDF: bad page''
   \<and> allowed_file ''scan.pdf'' \<and> endswith (lower ''scan.pdf'') ''.pdf''
   \<and> pdf_pages broken_page_env (Some ''%PDFx'') = Inl ''bad page''
   \<and> status (fst (upload_document broken_page_env (startup Map.empty)
        (Some \<lparr>upload_filename = ''scan.pdf'', upload_bytes = ''%PDFx''\<rparr>))) = 200
   \<and> map_of (loaded_documents (snd (upload_document broken_page_env (startup Map.empty)
        (Some \<lparr>upload_filename = ''scan.pdf'', upload_bytes = ''%PDFx''\<rparr>)))) ''scan.pdf''
       = Some ''Error reading PDF: bad page''"
proof -
  let ?fs = "[''uploads/b.pdf'' \<mapsto> ''%PDFx'']"
  let ?F = "\<lparr>upload_filename = ''scan.pdf'', upload_bytes = ''%PDFx''\<rparr>"
  have a: "Document broken_page_env (?fs ''uploads/a.docx'') = Inl ''Package not found''"
    "read_utf8 broken_page_env (?fs ''uploads/a.docx'') = Inl ''No such file or directory''"
    "PdfReader broken_page_env (?fs ''uploads/a.docx'') = Inl ''No such file or directory''"
    "PdfReader broken_page_env (?fs ''uploads/b.pdf'')
       = Inr (map Inr [''page one''] @ Inl ''bad page'' # [Inr ''page three''])"
    by (simp_all add: broken_page_env_def stub_env_def)
  have b: "upload_filename ?F \<noteq> [] \<and> allowed_file (upload_filename ?F)
     \<and> ''scan.pdf'' = secure_filename broken_page_env (upload_filename ?F)
     \<and> save_error broken_page_env (os_path_join UPLOAD_FOLDER ''scan.pdf'') = None
     \<and> endswith (lower ''scan.pdf'') ''.pdf''
     \<and> files (startup Map.empty)
         (os_path_join UPLOAD_FOLDER (take (length ''scan.pdf'' - 4) ''scan.pdf'' @ ''.docx''))
        = None
     \<and> pdf_pages broken_page_env (Some (upload_bytes ?F)) = Inl ''bad page''"
    by (simp add: run_simps broken_page_env_def)
  from extraction_failure_is_text [of broken_page_env ?fs "''uploads/a.docx''"
      "''Package not found''" "''No such file or directory''" "''No such file or directory''"
      "''uploads/b.pdf''" "[''page one'']" "''bad page''" "[Inr ''page three'']"
      ?F "''scan.pdf''" "startup Map.empty" "''bad page''"] a b
  show ?thesis by simp
qed

section \<open>Chat\<close>

lemma lookup_id_hashable:
  "hashable v \<Longrightarrow> \<exists>r. lookup_id v d = Inr r"
  by (cases v) simp_all

lemma lookup_id_absent:
  "hashable v \<Longrightarrow> v \<notin> JStr ` set (dict_keys d) \<Longrightarrow> lookup_id v d = Inr None"
  by (cases v) (auto simp: dict_keys_def map_of_eq_None_iff)

lemma lookup_id_empty: "hashable v \<Longrightarrow> lookup_id v [] = Inr None"
  by (cases v) simp_all

lemma get_document_content_fallback:
  assumes "\<not> truthy v \<or> lookup_id v d = Inr None"
  shows "get_document_content v d = (if d \<noteq> [] then Inr (Some (hd (dict_values d))) else Inr None)"
  using assms by (auto simp: get_document_content_def)

lemma get_document_content_empty: "get_document_content v [] \<noteq> Inr (Some t)"
  by (cases v) (auto simp: get_document_content_def)

lemma hd_dict_values: "d \<noteq> [] \<Longrightarrow> hd (dict_values d) = snd (hd d)"
  by (cases d) (simp_all add: dict_values_def)

lemma chat_object:
  "chat e st (Inr (JObj kvs)) =
     (if \<not> truthy (dict_get kvs ''message'' (JStr []))
      then (\<lparr>status = 400, body = [(''error'', JStr ''No message provided'')]\<rparr>, st)
      else case get_document_content (dict_get kvs ''document_id'' JNull) (loaded_documents st) of
             Inl msg \<Rightarrow> (chat_error msg, st)
           | Inr None \<Rightarrow>
               (\<lparr>status = 400,
                 body = [(''error'', JStr ''No document loaded. Please upload a document first.'')]\<rparr>,
                st)
           | Inr (Some doc_text) \<Rightarrow>
               (case completions_create e
                       (create_args doc_text (format_value e (dict_get kvs ''message'' (JStr [])))) of
                  Inl msg \<Rightarrow> chat_error msg
                | Inr bot_reply \<Rightarrow>
                    \<lparr>status = 200,
                     body = [(''success'', JBool True), (''reply'', JStr bot_reply),
                             (''document_id'', dict_get kvs ''document_id'' JNull)]\<rparr>,
                st\<lparr>api_calls := api_calls st
                     @ [create_args doc_text (format_value e (dict_get kvs ''message'' (JStr [])))]\<rparr>))"
  by (simp add: chat_def Let_def split: sum.splits option.splits)

lemma chat_not_object:
  "\<forall>kvs. req \<noteq> Inr (JObj kvs) \<Longrightarrow> status (fst (chat e st req)) = 500 \<and> snd (chat e st req) = st"
  by (cases req; simp add: chat_def chat_error_def split: json.splits)

lemma chat_store: "loaded_documents (snd (chat e st req)) = loaded_documents st"
proof (cases "\<exists>kvs. req = Inr (JObj kvs)")
  case True
  then show ?thesis
    by (auto simp: chat_object split: sum.splits option.splits)
next
  case False
  then show ?thesis using chat_not_object [of req e st] by simp
qed

lemma chat_empty_store:
  assumes "loaded_documents st = []"
    and "hashable (dict_get kvs ''document_id'' JNull)
         \<or> \<not> truthy (dict_get kvs ''document_id'' JNull)"
  shows "chat e st (Inr (JObj kvs)) =
           (\<lparr>status = 400,
             body = [(''error'',
                      JStr (if truthy (dict_get kvs ''message'' (JStr []))
                            then ''No document loaded. Please upload a document first.''
                            else ''No message provided''))]\<rparr>,
            st)"
proof -
  from assms have "\<not> truthy (dict_get kvs ''document_id'' JNull)
      \<or> lookup_id (dict_get kvs ''document_id'' JNull) (loaded_documents st) = Inr None"
    using lookup_id_empty by auto
  then have "get_document_content (dict_get kvs ''document_id'' JNull) (loaded_documents st)
      = Inr None"
    using assms(1) by (simp add: get_document_content_fallback)
  then show ?thesis by (simp add: chat_object)
qed

lemma chat_empty_store_no_call:
  assumes "loaded_documents st = []"
  shows "api_calls (snd (chat e st req)) = api_calls st"
proof (cases "\<exists>kvs. req = Inr (JObj kvs)")
  case True
  then obtain kvs where r: "req = Inr (JObj kvs)" by blast
  show ?thesis
    unfolding r using assms get_document_content_empty
    by (auto simp: chat_object split: sum.splits option.splits)
next
  case False
  then show ?thesis using chat_not_object [of req e st] by simp
qed

lemmas chat_simps =
  chat_def get_document_content_def dict_get_def dict_values_def dict_keys_def
  create_args_def format_value_def newline_def chat_error_def stub_env_def startup_def
  list_documents_def clear_documents_def health_def Let_def

lemma map_of_filter_out: "map_of (filter (\<lambda>kv. fst kv \<noteq> k) kvs) k = None"
  by (induction kvs) auto

lemma fallback_not_key:
  assumes "\<not> truthy v \<or> lookup_id v d = Inr None" and "[] \<notin> set (dict_keys d)"
  shows "v \<notin> JStr ` set (dict_keys d)"
  using assms by (cases v) (force simp: dict_keys_def map_of_eq_None_iff)+

text \<open>
  Claim C3 fails as it is written: with the Document Store empty, a chat request whose
  message is the empty string is answered 400 with the error \<open>No message provided\<close>,
  not with the error that says no document is loaded.
\<close>

theorem chat_no_document_counterexample:
  "loaded_documents (startup Map.empty) = []
   \<and> fst (chat stub_env (startup Map.empty) (Inr (JObj [(''message'', JStr [])])))
       = \<lparr>status = 400, body = [(''error'', JStr ''No message provided'')]\<rparr>
   \<and> body (fst (chat stub_env (startup Map.empty) (Inr (JObj [(''message'', JStr [])]))))
       \<noteq> [(''error'', JStr ''No document loaded. Please upload a document first.'')]"
  by (simp add: chat_object startup_def dict_get_def)

text \<open>
  Claim C3, amended. While the Document Store is empty, a chat request with a message
  that is not empty (and a document id that is absent, null, a string, a number or a
  boolean) is answered 400 with the error \<open>No document loaded. Please upload a document
  first.\<close>, and no chat request at all, whatever its body, reaches the remote API.
\<close>

theorem chat_no_document:
  assumes "loaded_documents st = []"
  shows "(truthy (dict_get kvs ''message'' (JStr []))
          \<and> (hashable (dict_get kvs ''document_id'' JNull)
               \<or> \<not> truthy (dict_get kvs ''document_id'' JNull)) \<longrightarrow>
            chat e st (Inr (JObj kvs)) =
              (\<lparr>status = 400,
                body = [(''error'', JStr ''No document loaded. Please upload a document first.'')]\<rparr>,
               st))
         \<and> api_calls (snd (chat e st req)) = api_calls st"
  using chat_empty_store [OF assms, of kvs e] chat_empty_store_no_call [OF assms, of e req]
  by simp

theorem chat_no_document_witness:
  "loaded_documents (startup Map.empty) = []
   \<and> truthy (dict_get [(''message'', JStr ''What is this?'')] ''message'' (JStr []))
   \<and> hashable (dict_get [(''message'', JStr ''What is this?'')] ''document_id'' JNull)
   \<and> chat stub_env (startup Map.empty) (Inr (JObj [(''message'', JStr ''What is this?'')])) =
       (\<lparr>status = 400,
         body = [(''error'', JStr ''No document loaded. Please upload a document first.'')]\<rparr>,
        startup Map.empty)
   \<and> api_calls (snd (chat stub_env (startup Map.empty)
        (Inr (JObj [(''message'', JStr ''hi''), (''document_id'', JStr ''a.txt'')])))) = []"
proof -
  have h: "loaded_documents (startup Map.empty) = []" by (simp add: startup_def)
  from chat_no_document [OF h, of "[(''message'', JStr ''What is this?'')]" stub_env
      "Inr (JObj [(''message'', JStr ''hi''), (''document_id'', JStr ''a.txt'')])"] h
  show ?thesis by (simp add: dict_get_def startup_def)
qed

text \<open>
  Claim C4. When the store is not empty and the requested document id is absent, null or
  empty, or is a value that is no key of the store, the block that chooses the context
  does not fail: it returns the text of the first entry of the store, and that text is
  what chat sends to the remote API. The first entry is the one inserted first: a new key
  goes to the end of the dictionary and an overwritten key stays where it is.
\<close>

theorem chat_falls_back_to_first:
  assumes "loaded_documents st \<noteq> []"
    and "truthy (dict_get kvs ''message'' (JStr []))"
    and "document_id = dict_get kvs ''document_id'' JNull"
    and "\<not> truthy document_id
         \<or> (hashable document_id \<and> document_id \<notin> JStr ` set (dict_keys (loaded_documents st)))"
  shows "get_document_content document_id (loaded_documents st)
           = Inr (Some (snd (hd (loaded_documents st))))
         \<and> api_calls (snd (chat e st (Inr (JObj kvs)))) =
             api_calls st @ [create_args (snd (hd (loaded_documents st)))
                               (format_value e (dict_get kvs ''message'' (JStr [])))]
         \<and> status (fst (chat e st (Inr (JObj kvs)))) \<noteq> 400"
proof -
  from assms(4) have "\<not> truthy document_id \<or> lookup_id document_id (loaded_documents st) = Inr None"
    using lookup_id_absent by blast
  then have g: "get_document_content document_id (loaded_documents st)
      = Inr (Some (snd (hd (loaded_documents st))))"
    using assms(1) by (simp add: get_document_content_fallback hd_dict_values)
  then show ?thesis
    using assms(2) unfolding assms(3)
    by (simp add: chat_object chat_error_def split: sum.splits)
qed

theorem chat_falls_back_to_first_witness:
  "loaded_documents (serve stub_env (startup Map.empty)
      [Upload (Some \<lparr>upload_filename = ''a.txt'', upload_bytes = ''alpha''\<rparr>),
       Upload (Some \<lparr>upload_filename = ''b.txt'', upload_bytes = ''beta''\<rparr>),
       Upload (Some \<lparr>upload_filename = ''a.txt'', upload_bytes = ''alpha two''\<rparr>)])
     = [(''a.txt'', ''alpha two''), (''b.txt'', ''beta'')]
   \<and> truthy (dict_get [(''message'', JStr ''Why?''), (''document_id'', JStr ''c.txt'')]
        ''message'' (JStr []))
   \<and> hashable (JStr ''c.txt'')
   \<and> api_calls (snd (chat stub_env
        (serve stub_env (startup Map.empty)
          [Upload (Some \<lparr>upload_filename = ''a.txt'', upload_bytes = ''alpha''\<rparr>),
           Upload (Some \<lparr>upload_filename = ''b.txt'', upload_bytes = ''beta''\<rparr>),
           Upload (Some \<lparr>upload_filename = ''a.txt'', upload_bytes = ''alpha two''\<rparr>)])
        (Inr (JObj [(''message'', JStr ''Why?''), (''document_id'', JStr ''c.txt'')]))))
       = [create_args ''alpha two'' ''Why?'']"
proof -
  let ?st = "serve stub_env (startup Map.empty)
      [Upload (Some \<lparr>upload_filename = ''a.txt'', upload_bytes = ''alpha''\<rparr>),
       Upload (Some \<lparr>upload_filename = ''b.txt'', upload_bytes = ''beta''\<rparr>),
       Upload (Some \<lparr>upload_filename = ''a.txt'', upload_bytes = ''alpha two''\<rparr>)]"
  let ?kvs = "[(''message'', JStr ''Why?''), (''document_id'', JStr ''c.txt'')]"
  have ld: "loaded_documents ?st = [(''a.txt'', ''alpha two''), (''b.txt'', ''beta'')]"
    by (simp add: run_simps)
  have ac: "api_calls ?st = []"
    by (simp add: run_simps)
  have a: "loaded_documents ?st \<noteq> []" using ld by simp
  have b: "truthy (dict_get ?kvs ''message'' (JStr []))" by (simp add: dict_get_def)
  have c: "JStr ''c.txt'' = dict_get ?kvs ''document_id'' JNull" by (simp add: dict_get_def)
  have d: "\<not> truthy (JStr ''c.txt'')
      \<or> (hashable (JStr ''c.txt'')
          \<and> JStr ''c.txt'' \<notin> JStr ` set (dict_keys (loaded_documents ?st)))"
    using ld by (simp add: dict_keys_def)
  from chat_falls_back_to_first [OF a b c d, of stub_env] ld ac
  have "api_calls (snd (chat stub_env ?st (Inr (JObj ?kvs))))
      = [create_args ''alpha two'' ''Why?'']"
    by (simp add: dict_get_def format_value_def)
  with ld b show ?thesis by simp
qed

text \<open>
  Claim C5. For every question and every context text the block above resolves, chat
  makes one call to the remote API, with exactly two turns, the fixed system instruction
  and the user turn \<open>Document content:\<close>, a newline, the context, two newlines,
  \<open>User question: \<close> and the question, with the model \<open>gpt-4o-mini\<close>, the temperature
  0.7 and 1000 tokens at most. Nothing else in the request body changes the call.
\<close>

theorem chat_prompt_is_fixed:
  assumes "get_document_content (dict_get kvs ''document_id'' JNull) (loaded_documents st)
             = Inr (Some contextText)"
    and "dict_get kvs ''message'' (JStr []) = JStr question"
    and "question \<noteq> []"
  shows "api_calls (snd (chat e st (Inr (JObj kvs)))) =
           api_calls st @
             [\<lparr>model = ''gpt-4o-mini'',
               messages =
                 [(''system'',
                   ''You are a helpful assistant that answers questions about the provided document. Answer based only on the document content.''),
                  (''user'',
                   ''Document content:'' @ [CHR 0x0A] @ contextText @ [CHR 0x0A, CHR 0x0A]
                     @ ''User question: '' @ question)],
               temperature = 7 / 10,
               max_tokens = 1000\<rparr>]"
  using assms
  by (simp add: chat_object create_args_def format_value_def newline_def split: sum.splits)

theorem chat_prompt_is_fixed_witness:
  "get_document_content
     (dict_get [(''message'', JStr ''Why?''), (''document_id'', JStr ''b.txt''),
                (''temperature'', JInt 2), (''model'', JStr ''other'')] ''document_id'' JNull)
     [(''a.txt'', ''alpha''), (''b.txt'', ''beta'')] = Inr (Some ''beta'')
   \<and> api_calls (snd (chat stub_env
        \<lparr>loaded_documents = [(''a.txt'', ''alpha''), (''b.txt'', ''beta'')],
          files = Map.empty, api_calls = []\<rparr>
        (Inr (JObj [(''message'', JStr ''Why?''), (''document_id'', JStr ''b.txt''),
                    (''temperature'', JInt 2), (''model'', JStr ''other'')])))) =
       [\<lparr>model = ''gpt-4o-mini'',
         messages =
           [(''system'',
             ''You are a helpful assistant that answers questions about the provided document. Answer based only on the document content.''),
            (''user'',
             ''Document content:'' @ [CHR 0x0A] @ ''beta'' @ [CHR 0x0A, CHR 0x0A]
               @ ''User question: Why?'')],
         temperature = 7 / 10,
         max_tokens = 1000\<rparr>]"
proof -
  let ?st = "\<lparr>loaded_documents = [(''a.txt'', ''alpha''), (''b.txt'', ''beta'')],
              files = Map.empty, api_calls = []\<rparr>"
  let ?kvs = "[(''message'', JStr ''Why?''), (''document_id'', JStr ''b.txt''),
               (''temperature'', JInt 2), (''model'', JStr ''other'')]"
  have a: "get_document_content (dict_get ?kvs ''document_id'' JNull) (loaded_documents ?st)
      = Inr (Some ''beta'')"
    by (simp add: get_document_content_def dict_get_def)
  have b: "dict_get ?kvs ''message'' (JStr []) = JStr ''Why?''" by (simp add: dict_get_def)
  have c: "''Why?'' \<noteq> []" by simp
  from chat_prompt_is_fixed [OF a b c, of stub_env] a
  show ?thesis by simp
qed

text \<open>
  Claim C7. After a clear the Document Store is empty, listing the documents answers the
  empty list, and a chat request that follows (a JSON object whose document id, if any,
  is hashable) is answered 400; no chat request that follows reaches the remote API.
\<close>

theorem clear_empties_store:
  "loaded_documents (snd (clear_documents st)) = []
   \<and> status (fst (clear_documents st)) = 200
   \<and> fst (list_documents (snd (clear_documents st)))
       = \<lparr>status = 200, body = [(''documents'', JArr [])]\<rparr>
   \<and> (hashable (dict_get kvs ''document_id'' JNull)
        \<or> \<not> truthy (dict_get kvs ''document_id'' JNull) \<longrightarrow>
      status (fst (chat e (snd (clear_documents st)) (Inr (JObj kvs)))) = 400)
   \<and> api_calls (snd (chat e (snd (clear_documents st)) req)) = api_calls st"
proof -
  have c: "loaded_documents (snd (clear_documents st)) = []"
    by (simp add: clear_documents_def)
  show ?thesis
    using chat_empty_store [OF c, of kvs e] chat_empty_store_no_call [OF c, of e req]
    by (simp add: clear_documents_def list_documents_def dict_keys_def)
qed

theorem clear_empties_store_witness:
  "hashable (dict_get [(''message'', JStr ''Why?''), (''document_id'', JStr ''a.txt'')]
      ''document_id'' JNull)
   \<and> fst (list_documents (snd (clear_documents
        \<lparr>loaded_documents = [(''a.txt'', ''alpha''), (''b.txt'', ''beta'')],
          files = Map.empty, api_calls = []\<rparr>)))
       = \<lparr>status = 200, body = [(''documents'', JArr [])]\<rparr>
   \<and> status (fst (chat stub_env (snd (clear_documents
        \<lparr>loaded_documents = [(''a.txt'', ''alpha''), (''b.txt'', ''beta'')],
          files = Map.empty, api_calls = []\<rparr>))
        (Inr (JObj [(''message'', JStr ''Why?''), (''document_id'', JStr ''a.txt'')])))) = 400"
proof -
  have h: "hashable (dict_get [(''message'', JStr ''Why?''), (''document_id'', JStr ''a.txt'')]
      ''document_id'' JNull)"
    by (simp add: dict_get_def)
  from clear_empties_store [of "\<lparr>loaded_documents = [(''a.txt'', ''alpha''), (''b.txt'', ''beta'')],
          files = Map.empty, api_calls = []\<rparr>"
      "[(''message'', JStr ''Why?''), (''document_id'', JStr ''a.txt'')]" stub_env] h
  show ?thesis by simp
qed

text \<open>
  Claim C9. A chat request answered 200 has a JSON object as body, and the
  \<open>document_id\<close> of the answer is the one of the request, null when the request had
  none. When the first loaded document was used as the fallback, in a store that holds
  no empty key, this id is no key of the store, although the context sent to the remote
  API is the text of the first entry.
\<close>

theorem chat_echoes_document_id:
  assumes "status (fst (chat e st req)) = 200"
  shows "\<exists>kvs. req = Inr (JObj kvs)
     \<and> map_of (body (fst (chat e st req))) ''document_id''
         = Some (dict_get kvs ''document_id'' JNull)
     \<and> ((\<not> truthy (dict_get kvs ''document_id'' JNull)
          \<or> lookup_id (dict_get kvs ''document_id'' JNull) (loaded_documents st) = Inr None)
         \<and> [] \<notin> set (dict_keys (loaded_documents st)) \<longrightarrow>
         dict_get kvs ''document_id'' JNull \<notin> JStr ` set (dict_keys (loaded_documents st))
         \<and> last (api_calls (snd (chat e st req)))
             = create_args (snd (hd (loaded_documents st)))
                 (format_value e (dict_get kvs ''message'' (JStr []))))"
proof -
  from assms obtain kvs where r: "req = Inr (JObj kvs)"
    using chat_not_object [of req e st] by fastforce
  let ?id = "dict_get kvs ''document_id'' JNull"
  from assms have m: "truthy (dict_get kvs ''message'' (JStr []))"
    unfolding r by (auto simp: chat_object split: if_splits)
  from assms m obtain doc_text where
    g: "get_document_content ?id (loaded_documents st) = Inr (Some doc_text)"
    unfolding r by (auto simp: chat_object chat_error_def split: sum.splits option.splits)
  from assms m g have echo: "map_of (body (fst (chat e st req))) ''document_id'' = Some ?id"
    unfolding r by (auto simp: chat_object chat_error_def split: sum.splits)
  from m g have calls: "last (api_calls (snd (chat e st req)))
      = create_args doc_text (format_value e (dict_get kvs ''message'' (JStr [])))"
    unfolding r by (simp add: chat_object split: sum.splits)
  have fb: "doc_text = snd (hd (loaded_documents st))"
    if "\<not> truthy ?id \<or> lookup_id ?id (loaded_documents st) = Inr None"
    using g get_document_content_fallback [OF that] hd_dict_values [of "loaded_documents st"]
    by (auto split: if_splits)
  show ?thesis
    using r echo calls fb fallback_not_key [of ?id "loaded_documents st"] by blast
qed

theorem chat_echoes_document_id_witness:
  "status (fst (chat stub_env
       \<lparr>loaded_documents = [(''a.txt'', ''alpha''), (''b.txt'', ''beta'')],
         files = Map.empty, api_calls = []\<rparr>
       (Inr (JObj [(''message'', JStr ''Why?''), (''document_id'', JStr ''c.txt'')])))) = 200
   \<and> map_of (body (fst (chat stub_env
       \<lparr>loaded_documents = [(''a.txt'', ''alpha''), (''b.txt'', ''beta'')],
         files = Map.empty, api_calls = []\<rparr>
       (Inr (JObj [(''message'', JStr ''Why?''), (''document_id'', JStr ''c.txt'')])))))
       ''document_id'' = Some (JStr ''c.txt'')
   \<and> lookup_id (JStr ''c.txt'') [(''a.txt'', ''alpha''), (''b.txt'', ''beta'')] = Inr None
   \<and> [] \<notin> set (dict_keys [(''a.txt'', ''alpha''), (''b.txt'', ''beta'')])
   \<and> last (api_calls (snd (chat stub_env
       \<lparr>loaded_documents = [(''a.txt'', ''alpha''), (''b.txt'', ''beta'')],
         files = Map.empty, api_calls = []\<rparr>
       (Inr (JObj [(''message'', JStr ''Why?''), (''document_id'', JStr ''c.txt'')])))))
       = create_args ''alpha'' ''Why?''"
proof -
  let ?st = "\<lparr>loaded_documents = [(''a.txt'', ''alpha''), (''b.txt'', ''beta'')],
              files = Map.empty, api_calls = []\<rparr>"
  let ?req = "Inr (JObj [(''message'', JStr ''Why?''), (''document_id'', JStr ''c.txt'')])"
  have h: "status (fst (chat stub_env ?st ?req)) = 200"
    by (simp add: chat_simps)
  from chat_echoes_document_id [OF h] h
  show ?thesis by (simp add: dict_get_def dict_keys_def format_value_def)
qed

text \<open>
  Claim C10. A chat request whose message is the empty string is answered like the same
  request without the message field: 400 with \<open>No message provided\<close>, whatever the
  Document Store holds, and the state, the log of remote calls with it, is unchanged.
\<close>

theorem chat_empty_message:
  assumes "map_of kvs ''message'' = Some (JStr [])"
  shows "chat e st (Inr (JObj kvs)) =
           (\<lparr>status = 400, body = [(''error'', JStr ''No message provided'')]\<rparr>, st)
         \<and> map_of (filter (\<lambda>kv. fst kv \<noteq> ''message'') kvs) ''message'' = None
         \<and> chat e st (Inr (JObj kvs))
             = chat e st (Inr (JObj (filter (\<lambda>kv. fst kv \<noteq> ''message'') kvs)))"
  using assms map_of_filter_out [of "''message''" kvs]
  by (simp add: chat_object dict_get_def)

theorem chat_empty_message_witness:
  "map_of [(''document_id'', JStr ''a.txt''), (''message'', JStr [])] ''message'' = Some (JStr [])
   \<and> chat stub_env
        \<lparr>loaded_documents = [(''a.txt'', ''alpha'')], files = Map.empty, api_calls = []\<rparr>
        (Inr (JObj [(''document_id'', JStr ''a.txt''), (''message'', JStr [])])) =
       (\<lparr>status = 400, body = [(''error'', JStr ''No message provided'')]\<rparr>,
        \<lparr>loaded_documents = [(''a.txt'', ''alpha'')], files = Map.empty, api_calls = []\<rparr>)
   \<and> chat stub_env
        \<lparr>loaded_documents = [(''a.txt'', ''alpha'')], files = Map.empty, api_calls = []\<rparr>
        (Inr (JObj [(''document_id'', JStr ''a.txt'')])) =
       (\<lparr>status = 400, body = [(''error'', JStr ''No message provided'')]\<rparr>,
        \<lparr>loaded_documents = [(''a.txt'', ''alpha'')], files = Map.empty, api_calls = []\<rparr>)"
proof -
  have h: "map_of [(''document_id'', JStr ''a.txt''), (''message'', JStr [])] ''message''
      = Some (JStr [])" by simp
  from chat_empty_message [OF h, of stub_env
      "\<lparr>loaded_documents = [(''a.txt'', ''alpha'')], files = Map.empty, api_calls = []\<rparr>"] h
  show ?thesis by auto
qed

section \<open>The invariant of the Document Store\<close>

lemma upload_keys:
  "set (dict_keys (loaded_documents (snd (upload_document e st (Some file))))) =
     (if status (fst (upload_document e st (Some file))) = 200
      then insert (secure_filename e (upload_filename file)) (set (dict_keys (loaded_documents st)))
      else set (dict_keys (loaded_documents st)))"
  by (simp add: upload_document_def Let_def keys_dict_setitem split: option.splits)

lemma upload_none: "snd (upload_document e st None) = st"
  by (simp add: upload_document_def)

lemma handle_keys:
  "set (dict_keys (loaded_documents (snd (handle e st r)))) =
     (case r of
        Upload (Some file) \<Rightarrow>
          if status (fst (handle e st r)) = 200
          then insert (secure_filename e (upload_filename file))
                 (set (dict_keys (loaded_documents st)))
          else set (dict_keys (loaded_documents st))
      | Clear \<Rightarrow> {}
      | _ \<Rightarrow> set (dict_keys (loaded_documents st)))"
proof (cases r)
  case Health
  then show ?thesis by (simp add: health_def)
next
  case (Upload req)
  then show ?thesis by (cases req) (simp_all add: upload_keys upload_none)
next
  case (Chat req)
  then show ?thesis by (simp add: chat_store)
next
  case Documents
  then show ?thesis by (simp add: list_documents_def)
next
  case Clear
  then show ?thesis by (simp add: clear_documents_def dict_keys_def)
qed

lemma serve_keys:
  "set (dict_keys (loaded_documents st)) = K \<Longrightarrow>
   set (dict_keys (loaded_documents (serve e st rs))) = ingested_keys e st K rs"
proof (induction rs arbitrary: st K)
  case Nil
  then show ?case by simp
next
  case (Cons r rs)
  have "set (dict_keys (loaded_documents (snd (handle e st r)))) =
      (case r of
         Upload (Some file) \<Rightarrow>
           if status (fst (handle e st r)) = 200
           then insert (secure_filename e (upload_filename file)) K else K
       | Clear \<Rightarrow> {}
       | _ \<Rightarrow> K)"
    using Cons.prems handle_keys [of e st r]
    by (auto split: request.splits option.splits)
  from Cons.IH [OF this] show ?case by simp
qed

lemma handle_distinct:
  "distinct (dict_keys (loaded_documents st)) \<Longrightarrow>
   distinct (dict_keys (loaded_documents (snd (handle e st r))))"
proof (cases r)
  case (Upload req)
  assume "distinct (dict_keys (loaded_documents st))"
  with Upload show ?thesis
    by (cases req)
      (auto simp: upload_document_def Let_def distinct_dict_setitem split: option.splits)
next
  case (Chat req)
  assume "distinct (dict_keys (loaded_documents st))"
  with Chat show ?thesis by (simp add: chat_store)
qed (simp_all add: health_def list_documents_def clear_documents_def dict_keys_def)

lemma serve_distinct:
  "distinct (dict_keys (loaded_documents st)) \<Longrightarrow>
   distinct (dict_keys (loaded_documents (serve e st rs)))"
  by (induction rs arbitrary: st) (simp_all add: handle_distinct)

text \<open>
  Claim C8. After any sequence of requests served from startup, the keys of the Document
  Store are exactly the sanitized keys of the uploads answered 200 since the last clear:
  a successful upload inserts or overwrites its key, a clear leaves no key, and health,
  documents and chat leave the store as it was.
\<close>

theorem store_keys_are_ingested:
  "set (dict_keys (loaded_documents (serve e (startup fs) rs)))
     = ingested_keys e (startup fs) {} rs
   \<and> loaded_documents (snd (health st)) = loaded_documents st
   \<and> loaded_documents (snd (list_documents st)) = loaded_documents st
   \<and> loaded_documents (snd (chat e st req)) = loaded_documents st"
proof -
  have "set (dict_keys (loaded_documents (startup fs))) = {}"
    by (simp add: startup_def dict_keys_def)
  then show ?thesis
    using serve_keys [of "startup fs" "{}" e rs]
    by (simp add: health_def list_documents_def chat_store)
qed

theorem store_keys_are_ingested_witness:
  "set (dict_keys (loaded_documents (serve stub_env (startup Map.empty)
     [Upload (Some \<lparr>upload_filename = ''a.txt'', upload_bytes = ''alpha''\<rparr>),
      Upload (Some \<lparr>upload_filename = ''virus.exe'', upload_bytes = ''MZ''\<rparr>),
      Clear,
      Upload (Some \<lparr>upload_filename = ''b.txt'', upload_bytes = ''beta''\<rparr>),
      Chat (Inr (JObj [(''message'', JStr ''Why?'')])),
      Documents]))) = {''b.txt''}
   \<and> ingested_keys stub_env (startup Map.empty) {}
     [Upload (Some \<lparr>upload_filename = ''a.txt'', upload_bytes = ''alpha''\<rparr>),
      Upload (Some \<lparr>upload_filename = ''virus.exe'', upload_bytes = ''MZ''\<rparr>),
      Clear,
      Upload (Some \<lparr>upload_filename = ''b.txt'', upload_bytes = ''beta''\<rparr>),
      Chat (Inr (JObj [(''message'', JStr ''Why?'')])),
      Documents] = {''b.txt''}"
proof -
  let ?rs = "[Upload (Some \<lparr>upload_filename = ''a.txt'', upload_bytes = ''alpha''\<rparr>),
      Upload (Some \<lparr>upload_filename = ''virus.exe'', upload_bytes = ''MZ''\<rparr>),
      Clear,
      Upload (Some \<lparr>upload_filename = ''b.txt'', upload_bytes = ''beta''\<rparr>),
      Chat (Inr (JObj [(''message'', JStr ''Why?'')])),
      Documents]"
  have k: "ingested_keys stub_env (startup Map.empty) {} ?rs = {''b.txt''}"
    by (simp add: run_simps chat_simps)
  have "set (dict_keys (loaded_documents (serve stub_env (startup Map.empty) ?rs)))
      = ingested_keys stub_env (startup Map.empty) {} ?rs"
    using store_keys_are_ingested [of stub_env Map.empty ?rs] by (rule conjunct1)
  then have s: "set (dict_keys (loaded_documents (serve stub_env (startup Map.empty) ?rs)))
      = {''b.txt''}"
    unfolding k .
  show ?thesis using s k by (rule conjI)
qed

end
